theory Spec2Isabelle
  imports Main "HOL-Library.Word" "HOL-Library.AList" "HOL-Library.Multiset"
begin

section \<open>JavaScript values\<close>

text \<open>
  A JavaScript string is a sequence of UTF-16 code units, and \<open>length\<close> and a regular
  expression without the \<open>u\<close> flag both work on code units. A string literal of the
  source is written \<open>js ''...''\<close>.
\<close>

type_synonym jschar = "16 word"

type_synonym jsstring = "jschar list"

definition js :: "string \<Rightarrow> jsstring" where
  "js s = map of_char s"

text \<open>
  A rejected promise or a thrown \<open>Error\<close> is the value \<open>Inl message\<close>: the handlers
  of the source read nothing but \<open>error.message\<close>.
\<close>

type_synonym 'a thrown = "jsstring + 'a"

section \<open>Documents of the remote store\<close>

text \<open>
  \<open>serverTimestamp()\<close> is a sentinel that the client writes; the store replaces it by
  its own clock when the write is committed.
\<close>

datatype field_time = ServerTimestamp | Timestamp int

text \<open>
  A document of the collection \<open>posts\<close>. \<open>getPosts\<close> reads the fields
  \<open>communityId\<close> and \<open>createTime\<close>; every other field of a post lives in the
  extension part of the record.
\<close>

record post_doc =
  communityId :: jsstring
  createTime :: int

text \<open>
  The fields that \<open>handleCreateCommunity\<close> writes into a document of the collection
  \<open>communities\<close>. \<open>creatorId\<close> is \<open>user?.uid\<close>, which is undefined (\<open>None\<close>)
  when nobody is signed in.
\<close>

record community_doc =
  creatorId :: "jsstring option"
  createdAt :: field_time
  numberOfMembers :: int
  privacyType :: jsstring

text \<open>A document of \<open>users/<uid>/communitySnippets\<close>.\<close>

record snippet_doc =
  communityId :: jsstring
  isAdmin :: bool

text \<open>
  The store: each collection is a list of (document id, fields) in the order the store
  holds them, with \<open>map_of\<close> as lookup by id. Snippets are keyed by the path of their
  collection and their id. \<open>now\<close> is the server's clock, \<open>outage\<close> is the message of
  the failure with which the service answers while it is unreachable, and
  \<open>requests\<close> counts the calls that reached the service.
\<close>

record 'p firestore =
  communities :: "(jsstring \<times> community_doc) list"
  communitySnippets :: "((jsstring \<times> jsstring) \<times> snippet_doc) list"
  posts :: "(jsstring \<times> 'p post_doc_scheme) list"
  now :: int
  outage :: "jsstring option"
  requests :: nat

datatype doc_write =
    SetCommunity jsstring community_doc
  | SetSnippet jsstring jsstring snippet_doc

section \<open>The client library of the store\<close>

text \<open>
  Modelled from the spec: the service's side of a call of firebase/firestore. A call that
  reaches the service is counted; a committed write replaces the document under its key or
  adds it, and a \<open>serverTimestamp()\<close> in it becomes the server's time.
\<close>

definition receive :: "'p firestore \<Rightarrow> 'p firestore" where
  "receive fs = fs\<lparr>requests := Suc (requests fs)\<rparr>"

definition stamp :: "int \<Rightarrow> community_doc \<Rightarrow> community_doc" where
  "stamp t d = (case createdAt d of ServerTimestamp \<Rightarrow> d\<lparr>createdAt := Timestamp t\<rparr> | Timestamp _ \<Rightarrow> d)"

fun apply_write :: "'p firestore \<Rightarrow> doc_write \<Rightarrow> 'p firestore" where
  "apply_write fs (SetCommunity k d) =
     fs\<lparr>communities := AList.update k (stamp (now fs) d) (communities fs)\<rparr>"
| "apply_write fs (SetSnippet path k d) =
     fs\<lparr>communitySnippets := AList.update (path, k) d (communitySnippets fs)\<rparr>"

text \<open>
  Modelled from the spec: \<open>runTransaction\<close> of the library firebase/firestore, which
  is not part of the repository. Section 6 of the specification relies on transactions
  being all-or-nothing: the update function reads the store and either throws, and then
  nothing is written and the call is rejected with what was thrown, or returns, and then
  all its writes are committed together. A call that does not reach the service is
  rejected and writes nothing.
\<close>

definition runTransaction ::
  "'p firestore \<Rightarrow> ('p firestore \<Rightarrow> doc_write list thrown) \<Rightarrow> unit thrown \<times> 'p firestore" where
  "runTransaction fs updateFunction =
     (case outage fs of
        Some msg \<Rightarrow> (Inl msg, receive fs)
      | None \<Rightarrow>
          (case updateFunction fs of
             Inl msg \<Rightarrow> (Inl msg, receive fs)
           | Inr ws \<Rightarrow> (Inr (), foldl apply_write (receive fs) ws)))"

text \<open>
  Modelled from the spec: \<open>query\<close> with \<open>where\<close>, \<open>orderBy(field, "desc")\<close> and
  \<open>limit\<close> of firebase/firestore (section 6: filtered, sorted, limited reads that
  return an ordered sequence of documents). Documents that tie on the ordering field keep
  the order in which the store holds them.
\<close>

definition run_query ::
  "('d \<Rightarrow> bool) \<Rightarrow> ('d \<Rightarrow> int) \<Rightarrow> nat option \<Rightarrow> (jsstring \<times> 'd) list \<Rightarrow> (jsstring \<times> 'd) list" where
  "run_query wh field lim docs =
     (let hits = sort_key (\<lambda>doc. - field (snd doc)) (filter (\<lambda>doc. wh (snd doc)) docs)
      in case lim of None \<Rightarrow> hits | Some n \<Rightarrow> take n hits)"

text \<open>
  Modelled from the spec: \<open>getDocs\<close> of firebase/firestore, one read of the service
  that answers with the result of the query or is rejected.
\<close>

definition getDocs :: "'p firestore \<Rightarrow> 'r \<Rightarrow> 'r thrown \<times> 'p firestore" where
  "getDocs fs answer =
     (case outage fs of
        Some msg \<Rightarrow> (Inl msg, receive fs)
      | None \<Rightarrow> (Inr answer, receive fs))"

section \<open>CreateCommunityModal\<close>

text \<open>
  The calls the component makes on its collaborators (\<open>router.push\<close>, the
  \<open>handleClose\<close> property and \<open>toggleMenuOpen\<close> of the directory hook), in order.
\<close>

datatype ui_effect = RouterPush jsstring | HandleClose | ToggleMenuOpen

record modal =
  communityName :: jsstring
  charRemaining :: int
  communityType :: jsstring
  error :: jsstring
  loading :: bool
  effects :: "ui_effect list"

definition communityNameLengthLimit :: nat where
  "communityNameLengthLimit = 25"

definition initial_modal :: modal where
  "initial_modal =
     \<lparr>communityName = [], charRemaining = int communityNameLengthLimit,
      communityType = js ''public'', error = [], loading = False, effects = []\<rparr>"

definition handleChange :: "jsstring \<Rightarrow> modal \<Rightarrow> modal" where
  "handleChange target_value s =
     (if length target_value > communityNameLengthLimit then s
      else s\<lparr>communityName := target_value,
             charRemaining := int communityNameLengthLimit - int (length target_value)\<rparr>)"

definition onCommunityTypeChange :: "jsstring \<Rightarrow> modal \<Rightarrow> modal" where
  "onCommunityTypeChange target_name s = s\<lparr>communityType := target_name\<rparr>"

text \<open>
  The character class of the regular expression \<open>format\<close>, in the order of the source:
  the space, the backtick (0x60), the quotes (0x27, 0x22), the backslash (0x5C) and the
  other punctuation of a keyboard.
\<close>

definition format_chars :: jsstring where
  "format_chars =
     js ('' '' @ [CHR 0x60] @ ''!@#$%^&*()_+-=[]{};'' @ [CHR 0x27] @ '':''
         @ [CHR 0x22, CHR 0x5C] @ ''|,.<>/?~'')"

definition format_test :: "jsstring \<Rightarrow> bool" where
  "format_test s = list_ex (\<lambda>c. c \<in> set format_chars) s"

definition template_uid :: "jsstring option \<Rightarrow> jsstring" where
  "template_uid user = (case user of None \<Rightarrow> js ''undefined'' | Some uid \<Rightarrow> uid)"

definition taken_message :: "jsstring \<Rightarrow> jsstring" where
  "taken_message name =
     js ''The community '' @ name @ js '' is already taken. Try a different name! ''"

text \<open>
  The update function passed to \<open>runTransaction\<close>. With nobody signed in,
  \<open>user?.uid\<close> is undefined: the template literal of the path then reads
  \<open>users/undefined/communitySnippets\<close> and \<open>creatorId\<close> is undefined. Whether the
  store accepts an undefined field depends on its settings, which the repository does not
  show, so what is proved about the written record is for a signed-in user.
\<close>

definition create_transaction ::
  "jsstring option \<Rightarrow> jsstring \<Rightarrow> jsstring \<Rightarrow> 'p firestore \<Rightarrow> doc_write list thrown" where
  "create_transaction user name type fs =
     (case map_of (communities fs) name of
        Some communityDoc \<Rightarrow> Inl (taken_message name)
      | None \<Rightarrow>
          Inr [SetCommunity name
                 \<lparr>creatorId = user, createdAt = ServerTimestamp,
                  numberOfMembers = 1, privacyType = type\<rparr>,
               SetSnippet (js ''users/'' @ template_uid user @ js ''/communitySnippets'') name
                 \<lparr>communityId = name, isAdmin = True\<rparr>])"

definition handleCreateCommunity ::
  "jsstring option \<Rightarrow> 'p firestore \<Rightarrow> modal \<Rightarrow> modal \<times> 'p firestore" where
  "handleCreateCommunity user fs s =
     (let s0 = (if error s \<noteq> [] then s\<lparr>error := []\<rparr> else s) in
      if format_test (communityName s) then
        (s0\<lparr>error := js ''Community name can only contain letters and numbers''\<rparr>, fs)
      else if length (communityName s) < 3 then
        (s0\<lparr>error := js ''Community name must be at least 3 characters long''\<rparr>, fs)
      else
        let s1 = s0\<lparr>loading := True\<rparr> in
        case runTransaction fs (create_transaction user (communityName s) (communityType s)) of
          (Inr u, fs') \<Rightarrow>
            (s1\<lparr>effects := effects s1 @
                   [RouterPush (js ''community/'' @ communityName s), HandleClose, ToggleMenuOpen],
                 loading := False\<rparr>, fs')
        | (Inl message, fs') \<Rightarrow>
            (s1\<lparr>error := message, loading := False, loading := False\<rparr>, fs'))"

text \<open>
  What can happen to the dialog: the user edits the name, ticks a community type or
  presses the button "Create Community", and between two of these the store may change
  under other clients or become unreachable.
\<close>

datatype 'p modal_event =
    InputChange jsstring
  | TypeChange jsstring
  | CreateClick
  | Remote "'p firestore \<Rightarrow> 'p firestore"

fun modal_step ::
  "jsstring option \<Rightarrow> modal \<times> 'p firestore \<Rightarrow> 'p modal_event \<Rightarrow> modal \<times> 'p firestore" where
  "modal_step user (s, fs) (InputChange v) = (handleChange v s, fs)"
| "modal_step user (s, fs) (TypeChange n) = (onCommunityTypeChange n s, fs)"
| "modal_step user (s, fs) CreateClick = handleCreateCommunity user fs s"
| "modal_step user (s, fs) (Remote f) = (s, f fs)"

definition run_modal ::
  "jsstring option \<Rightarrow> 'p firestore \<Rightarrow> 'p modal_event list \<Rightarrow> modal \<times> 'p firestore" where
  "run_modal user fs evs = foldl (modal_step user) (initial_modal, fs) evs"

text \<open>
  The letters and digits of the specification ("only letters/digits"): the code units of
  \<open>0-9\<close>, \<open>A-Z\<close> and \<open>a-z\<close>.
\<close>

definition letter_or_digit :: "jschar \<Rightarrow> bool" where
  "letter_or_digit c =
     ((0x30 \<le> c \<and> c \<le> 0x39) \<or> (0x41 \<le> c \<and> c \<le> 0x5A) \<or> (0x61 \<le> c \<and> c \<le> 0x7A))"

section \<open>The page of communities\<close>

text \<open>
  An element of the view-model, \<open>{id: doc.id, ...doc.data()}\<close>, is the pair of the
  document's id and the record of its fields (no field of a document is named \<open>id\<close>).
  \<open>numberOfExtraPosts\<close> is a count: the page calls \<open>getCommunities\<close> with 0 when
  it mounts and with 5 from the button "View More".
\<close>

record Communities =
  loading :: bool
  communities :: "(jsstring \<times> community_doc) list"

definition getCommunities ::
  "nat \<Rightarrow> 'p firestore \<Rightarrow> Communities \<Rightarrow> Communities \<times> 'p firestore" where
  "getCommunities numberOfExtraPosts fs s =
     (let s1 = s\<lparr>Communities.loading := True\<rparr>;
          communityQuery = run_query (\<lambda>d. True) numberOfMembers (Some (5 + numberOfExtraPosts))
                             (firestore.communities fs)
      in case getDocs fs communityQuery of
           (Inr communityDocs, fs') \<Rightarrow>
             (s1\<lparr>Communities.communities := map (\<lambda>doc. (fst doc, snd doc)) communityDocs,
                 Communities.loading := False\<rparr>, fs')
         | (Inl err, fs') \<Rightarrow> (s1\<lparr>Communities.loading := False\<rparr>, fs'))"

section \<open>The posts of a community\<close>

text \<open>
  The state container of the posts holds the loaded posts and the user's votes; any other
  field it has lives in the extension part of the record.
\<close>

record postVote =
  postId :: jsstring
  voteValue :: int

record 'p postState =
  posts :: "(jsstring \<times> 'p post_doc_scheme) list"
  postVotes :: "postVote list"

record ('p, 'z) Posts =
  loading :: bool
  postStateValue :: "('p, 'z) postState_scheme"

definition getPosts ::
  "jsstring \<times> community_doc \<Rightarrow> 'p firestore \<Rightarrow> ('p, 'z) Posts \<Rightarrow> ('p, 'z) Posts \<times> 'p firestore" where
  "getPosts communityData fs s =
     (let s1 = s\<lparr>Posts.loading := True\<rparr>;
          postsQuery = run_query (\<lambda>d. post_doc.communityId d = fst communityData) createTime None
                         (firestore.posts fs)
      in case getDocs fs postsQuery of
           (Inr postDocs, fs') \<Rightarrow>
             (s1\<lparr>postStateValue :=
                   (postStateValue s1)\<lparr>postState.posts := map (\<lambda>doc. (fst doc, snd doc)) postDocs\<rparr>,
                 Posts.loading := False\<rparr>, fs')
         | (Inl err, fs') \<Rightarrow> (s1\<lparr>Posts.loading := False\<rparr>, fs'))"

section \<open>Concrete states\<close>

text \<open>An empty store that is reachable, and a signed-in user.\<close>

definition store0 :: "unit firestore" where
  "store0 =
     \<lparr>firestore.communities = [], communitySnippets = [], firestore.posts = [],
      now = 1000, outage = None, requests = 0\<rparr>"

definition alice :: "jsstring option" where
  "alice = Some (js ''u1'')"

text \<open>The store after alice has created the public community abc123, and a second user.\<close>

definition store1 :: "unit firestore" where
  "store1 =
     \<lparr>firestore.communities =
        [(js ''abc123'',
          \<lparr>creatorId = Some (js ''u1''), createdAt = Timestamp 1000, numberOfMembers = 1,
           privacyType = js ''public''\<rparr>)],
      communitySnippets =
        [((js ''users/u1/communitySnippets'', js ''abc123''),
          \<lparr>communityId = js ''abc123'', isAdmin = True\<rparr>)],
      firestore.posts = [], now = 1000, outage = None, requests = 1\<rparr>"

definition bob :: "jsstring option" where
  "bob = Some (js ''u2'')"

text \<open>The same store while the service is unreachable.\<close>

definition store_down :: "unit firestore" where
  "store_down = store1\<lparr>outage := Some (js ''unavailable'')\<rparr>"

text \<open>
  A store with seven communities and three posts, and the two pages before their first
  load.
\<close>

definition doc_abc123 :: community_doc where
  "doc_abc123 =
     \<lparr>creatorId = Some (js ''u1''), createdAt = Timestamp 1000, numberOfMembers = 1,
      privacyType = js ''public''\<rparr>"

definition ranked_store :: "unit firestore" where
  "ranked_store =
     store0\<lparr>firestore.communities :=
       map (\<lambda>(name, members). (js name, doc_abc123\<lparr>numberOfMembers := members\<rparr>))
         [(''c1'', 3), (''c2'', 9), (''c3'', 1), (''c4'', 7), (''c5'', 5), (''c6'', 9), (''c7'', 2)],
       firestore.posts :=
         [(js ''p1'', \<lparr>post_doc.communityId = js ''abc123'', createTime = 5\<rparr>),
          (js ''p2'', \<lparr>post_doc.communityId = js ''other'', createTime = 7\<rparr>),
          (js ''p3'', \<lparr>post_doc.communityId = js ''abc123'', createTime = 9\<rparr>)]\<rparr>"

definition page0 :: Communities where
  "page0 = \<lparr>Communities.loading = False, communities = []\<rparr>"

definition posts0 :: "(unit, unit) Posts" where
  "posts0 =
     \<lparr>Posts.loading = False,
      postStateValue =
        \<lparr>postState.posts = [],
         postVotes = [\<lparr>postId = js ''p1'', voteValue = 1\<rparr>]\<rparr>\<rparr>"

section \<open>What the creation handler leaves alone\<close>

lemma handleCreateCommunity_invalid:
  "format_test (communityName s) \<or> length (communityName s) < 3 \<Longrightarrow>
   snd (handleCreateCommunity user fs s) = fs"
  by (auto simp: handleCreateCommunity_def Let_def)

lemma handleCreateCommunity_name:
  "communityName (fst (handleCreateCommunity user fs s)) = communityName s"
  by (auto simp: handleCreateCommunity_def Let_def split: prod.splits sum.splits)

lemma handleCreateCommunity_loading:
  "modal.loading (fst (handleCreateCommunity user fs s)) =
     (if format_test (communityName s) \<or> length (communityName s) < 3
      then modal.loading s else False)"
  by (auto simp: handleCreateCommunity_def Let_def split: prod.splits sum.splits)

lemma modal_step_name:
  "length (communityName (fst st)) \<le> communityNameLengthLimit \<Longrightarrow>
   length (communityName (fst (modal_step user st ev))) \<le> communityNameLengthLimit"
  by (cases st; cases ev)
    (auto simp: handleChange_def onCommunityTypeChange_def handleCreateCommunity_name)

lemma foldl_modal_step_name:
  "length (communityName (fst st)) \<le> communityNameLengthLimit \<Longrightarrow>
   length (communityName (fst (foldl (modal_step user) st evs))) \<le> communityNameLengthLimit"
  by (induction evs arbitrary: st) (auto simp: modal_step_name)

lemma modal_step_loading:
  "\<not> modal.loading (fst st) \<Longrightarrow> \<not> modal.loading (fst (modal_step user st ev))"
  by (cases st; cases ev)
    (auto simp: handleChange_def onCommunityTypeChange_def handleCreateCommunity_loading)

lemma foldl_modal_step_loading:
  "\<not> modal.loading (fst st) \<Longrightarrow> \<not> modal.loading (fst (foldl (modal_step user) st evs))"
  by (induction evs arbitrary: st) (auto simp: modal_step_loading)

section \<open>The length of the stored name\<close>

text \<open>
  Claim C6. \<open>handleChange\<close> ignores an input value longer than 25 code units and leaves
  the state as it was; so after every sequence of events on the dialog (edits of the
  name, choices of the type, presses of the button, changes of the store) the stored
  community name has at most 25 code units.
\<close>

theorem name_length_bounded:
  "(communityNameLengthLimit < length v \<longrightarrow> handleChange v s = s) \<and>
   length (communityName (fst (run_modal user fs evs))) \<le> communityNameLengthLimit \<and>
   communityNameLengthLimit = 25"
proof -
  have "length (communityName (fst (initial_modal, fs))) \<le> communityNameLengthLimit"
    by (simp add: initial_modal_def)
  then have "length (communityName (fst (run_modal user fs evs))) \<le> communityNameLengthLimit"
    unfolding run_modal_def by (rule foldl_modal_step_name)
  then show ?thesis
    by (simp add: handleChange_def communityNameLengthLimit_def)
qed

theorem name_length_bounded_witness:
  "communityNameLengthLimit < length (replicate 26 (0x61 :: jschar)) \<and>
   handleChange (replicate 26 0x61) (handleChange (js ''abc'') initial_modal)
     = handleChange (js ''abc'') initial_modal \<and>
   communityName
     (fst (run_modal None store0 [InputChange (js ''abc''), InputChange (replicate 26 0x61)]))
     = js ''abc''"
  using name_length_bounded
    [of "replicate 26 0x61" "handleChange (js ''abc'') initial_modal" None store0
        "[InputChange (js ''abc''), InputChange (replicate 26 0x61)]"]
  by (simp add: run_modal_def handleChange_def communityNameLengthLimit_def js_def)

section \<open>Validation of the name\<close>

lemma format_chars_eval:
  "format_chars = [32, 96, 33, 64, 35, 36, 37, 94, 38, 42, 40, 41, 95, 43, 45, 61, 91, 93,
  123, 125, 59, 39, 58, 34, 92, 124, 44, 46, 60, 62, 47, 63, 126]"
  by (simp add: format_chars_def js_def)

lemma letter_or_digit_allowed: "letter_or_digit c \<Longrightarrow> c \<notin> set format_chars"
  unfolding letter_or_digit_def format_chars_eval by auto

lemma letters_pass_format:
  "\<forall>c\<in>set n. letter_or_digit c \<Longrightarrow> \<not> format_test n"
  by (auto simp: format_test_def list_ex_iff letter_or_digit_allowed)

lemma handleCreateCommunity_valid_requests:
  "\<not> format_test (communityName s) \<Longrightarrow> 3 \<le> length (communityName s) \<Longrightarrow>
   requests (snd (handleCreateCommunity user fs s)) = Suc (requests fs)"
  by (auto simp: handleCreateCommunity_def Let_def runTransaction_def receive_def create_transaction_def
      split: prod.splits sum.splits option.splits)

lemma communityName_handleChange:
  "length v \<le> 25 \<Longrightarrow> communityName (handleChange v s) = v"
  by (simp add: handleChange_def communityNameLengthLimit_def)

lemma format_test_examples:
  "format_test (js ''a b'')" "\<not> format_test (js ''ab'')" "\<not> format_test (js ''abc123'')"
  by (simp_all add: format_test_def format_chars_eval js_def)

lemma letter_or_digit_abc123: "\<forall>c\<in>set (js ''abc123''). letter_or_digit c"
  by (simp add: letter_or_digit_def js_def)

lemma length_js: "length (js s) = length s"
  by (simp add: js_def)

lemma js_append: "js a @ js b = js (a @ b)"
  by (simp add: js_def)

lemma typed_abc123:
  "communityName (handleChange (js ''abc123'') initial_modal) = js ''abc123''"
  "communityType (handleChange (js ''abc123'') initial_modal) = js ''public''"
  by (simp_all add: handleChange_def initial_modal_def communityNameLengthLimit_def js_def)

lemma retyped_abc123:
  "communityName (onCommunityTypeChange (js ''restricted'')
     (handleChange (js ''abc123'') initial_modal)) = js ''abc123''"
  by (simp add: onCommunityTypeChange_def typed_abc123)

text \<open>
  Claim C4. \<open>handleCreateCommunity\<close> stops with a validation message, before any call
  on the store (the store, with its count of received calls, is exactly as before), if and
  only if the name contains a character of the class \<open>format\<close> or is shorter than 3.
  The message names the first check that fails. Otherwise exactly one call reaches the
  store. In particular a name of 3 to 25 letters and digits passes the validation and the
  transaction is attempted.
\<close>

theorem validation_error_iff:
  "(snd (handleCreateCommunity user fs s) = fs
      \<longleftrightarrow> format_test (communityName s) \<or> length (communityName s) < 3) \<and>
   (format_test (communityName s) \<longrightarrow>
      handleCreateCommunity user fs s =
        (s\<lparr>error := js ''Community name can only contain letters and numbers''\<rparr>, fs)) \<and>
   (\<not> format_test (communityName s) \<and> length (communityName s) < 3 \<longrightarrow>
      handleCreateCommunity user fs s =
        (s\<lparr>error := js ''Community name must be at least 3 characters long''\<rparr>, fs)) \<and>
   (\<not> format_test (communityName s) \<and> 3 \<le> length (communityName s) \<longrightarrow>
      requests (snd (handleCreateCommunity user fs s)) = Suc (requests fs)) \<and>
   ((\<forall>c\<in>set (communityName s). letter_or_digit c) \<and> 3 \<le> length (communityName s)
      \<and> length (communityName s) \<le> 25 \<longrightarrow>
      requests (snd (handleCreateCommunity user fs s)) = Suc (requests fs))"
proof -
  have iff: "snd (handleCreateCommunity user fs s) = fs
      \<longleftrightarrow> format_test (communityName s) \<or> length (communityName s) < 3"
  proof
    assume same: "snd (handleCreateCommunity user fs s) = fs"
    show "format_test (communityName s) \<or> length (communityName s) < 3"
    proof (rule ccontr)
      assume "\<not> (format_test (communityName s) \<or> length (communityName s) < 3)"
      then have "requests (snd (handleCreateCommunity user fs s)) = Suc (requests fs)"
        by (simp add: handleCreateCommunity_valid_requests)
      with same show False by simp
    qed
  next
    assume "format_test (communityName s) \<or> length (communityName s) < 3"
    then show "snd (handleCreateCommunity user fs s) = fs"
      by (rule handleCreateCommunity_invalid)
  qed
  have chars: "format_test (communityName s) \<longrightarrow>
      handleCreateCommunity user fs s =
        (s\<lparr>error := js ''Community name can only contain letters and numbers''\<rparr>, fs)"
    by (simp add: handleCreateCommunity_def)
  have short: "\<not> format_test (communityName s) \<and> length (communityName s) < 3 \<longrightarrow>
      handleCreateCommunity user fs s =
        (s\<lparr>error := js ''Community name must be at least 3 characters long''\<rparr>, fs)"
    by (simp add: handleCreateCommunity_def)
  have valid: "\<not> format_test (communityName s) \<and> 3 \<le> length (communityName s) \<longrightarrow>
      requests (snd (handleCreateCommunity user fs s)) = Suc (requests fs)"
    by (simp add: handleCreateCommunity_valid_requests)
  have alnum: "(\<forall>c\<in>set (communityName s). letter_or_digit c) \<and> 3 \<le> length (communityName s)
      \<and> length (communityName s) \<le> 25 \<longrightarrow>
      requests (snd (handleCreateCommunity user fs s)) = Suc (requests fs)"
    using letters_pass_format [of "communityName s"]
    by (simp add: handleCreateCommunity_valid_requests)
  from iff chars short valid alnum show ?thesis by blast
qed

theorem validation_error_iff_witness:
  "format_test (js ''a b'') \<and>
   handleCreateCommunity alice store0 (handleChange (js ''a b'') initial_modal) =
     ((handleChange (js ''a b'') initial_modal)
        \<lparr>error := js ''Community name can only contain letters and numbers''\<rparr>, store0) \<and>
   \<not> format_test (js ''ab'') \<and> length (js ''ab'') < 3 \<and>
   handleCreateCommunity alice store0 (handleChange (js ''ab'') initial_modal) =
     ((handleChange (js ''ab'') initial_modal)
        \<lparr>error := js ''Community name must be at least 3 characters long''\<rparr>, store0) \<and>
   list_all letter_or_digit (js ''abc123'') \<and> 3 \<le> length (js ''abc123'') \<and>
   length (js ''abc123'') \<le> 25 \<and>
   requests (snd (handleCreateCommunity alice store0 (handleChange (js ''abc123'') initial_modal)))
     = Suc (requests store0) \<and>
   snd (handleCreateCommunity alice store0 (handleChange (js ''abc123'') initial_modal)) \<noteq> store0"
  using validation_error_iff [of alice store0 "handleChange (js ''a b'') initial_modal"]
    validation_error_iff [of alice store0 "handleChange (js ''ab'') initial_modal"]
    validation_error_iff [of alice store0 "handleChange (js ''abc123'') initial_modal"]
    format_test_examples letter_or_digit_abc123
  by (simp add: communityName_handleChange js_def list_all_iff)

section \<open>A name that is taken\<close>

lemma runTransaction_throws:
  "updateFunction fs = Inl msg \<Longrightarrow>
   runTransaction fs updateFunction =
     (Inl (case outage fs of Some m \<Rightarrow> m | None \<Rightarrow> msg), receive fs)"
  by (simp add: runTransaction_def split: option.splits)

lemma create_transaction_taken:
  "map_of (firestore.communities fs) name = Some c \<Longrightarrow>
   create_transaction user name type fs = Inl (taken_message name)"
  by (simp add: create_transaction_def)

text \<open>
  Claim C1. When a community document keyed by the name exists, the update function of the
  transaction throws "The community ... is already taken", and the handler writes nothing:
  the store is as before but for its count of received calls, so neither a community
  record nor a membership snippet is written and the existing community keeps its fields.
  When the name passes the validation and the store is reachable, the message surfaces in
  \<open>error\<close>, no navigation happens and the loading flag is off.
\<close>

theorem create_taken_conflict:
  assumes taken: "map_of (firestore.communities fs) (communityName s) = Some c"
  shows "create_transaction user (communityName s) (communityType s) fs
           = Inl (taken_message (communityName s)) \<and>
         firestore.communities (snd (handleCreateCommunity user fs s)) = firestore.communities fs \<and>
         communitySnippets (snd (handleCreateCommunity user fs s)) = communitySnippets fs \<and>
         map_of (firestore.communities (snd (handleCreateCommunity user fs s))) (communityName s)
           = Some c \<and>
         (snd (handleCreateCommunity user fs s))\<lparr>requests := requests fs\<rparr> = fs \<and>
         (\<not> format_test (communityName s) \<and> 3 \<le> length (communityName s) \<and> outage fs = None \<longrightarrow>
            handleCreateCommunity user fs s =
              (s\<lparr>error := taken_message (communityName s), modal.loading := False\<rparr>, receive fs))"
proof -
  let ?txn = "create_transaction user (communityName s) (communityType s)"
  have thrown: "?txn fs = Inl (taken_message (communityName s))"
    using taken by (rule create_transaction_taken)
  have run: "runTransaction fs ?txn =
      (Inl (case outage fs of Some m \<Rightarrow> m | None \<Rightarrow> taken_message (communityName s)), receive fs)"
    using thrown by (rule runTransaction_throws)
  have store: "snd (handleCreateCommunity user fs s) = fs \<or> snd (handleCreateCommunity user fs s) = receive fs"
    by (simp add: handleCreateCommunity_def Let_def run)
  then have comm: "firestore.communities (snd (handleCreateCommunity user fs s)) = firestore.communities fs"
    and snip: "communitySnippets (snd (handleCreateCommunity user fs s)) = communitySnippets fs"
    by (auto simp: receive_def)
  from store have rest: "(snd (handleCreateCommunity user fs s))\<lparr>requests := requests fs\<rparr> = fs"
    by (auto simp: receive_def)
  have signalled: "\<not> format_test (communityName s) \<and> 3 \<le> length (communityName s) \<and> outage fs = None \<longrightarrow>
            handleCreateCommunity user fs s =
              (s\<lparr>error := taken_message (communityName s), modal.loading := False\<rparr>, receive fs)"
    by (simp add: handleCreateCommunity_def Let_def run)
  from thrown comm snip taken rest signalled show ?thesis by simp
qed

theorem create_taken_conflict_witness:
  "map_of (firestore.communities store1) (js ''abc123'')
     = Some \<lparr>creatorId = Some (js ''u1''), createdAt = Timestamp 1000, numberOfMembers = 1,
             privacyType = js ''public''\<rparr> \<and>
   error (fst (handleCreateCommunity bob store1
     (onCommunityTypeChange (js ''restricted'') (handleChange (js ''abc123'') initial_modal))))
     = taken_message (js ''abc123'') \<and>
   map_of (firestore.communities (snd (handleCreateCommunity bob store1
     (onCommunityTypeChange (js ''restricted'') (handleChange (js ''abc123'') initial_modal)))))
     (js ''abc123'')
     = Some \<lparr>creatorId = Some (js ''u1''), createdAt = Timestamp 1000, numberOfMembers = 1,
             privacyType = js ''public''\<rparr>"
proof -
  let ?s = "onCommunityTypeChange (js ''restricted'') (handleChange (js ''abc123'') initial_modal)"
  let ?c = "\<lparr>creatorId = Some (js ''u1''), createdAt = Timestamp 1000, numberOfMembers = 1,
             privacyType = js ''public''\<rparr>"
  have taken: "map_of (firestore.communities store1) (communityName ?s) = Some ?c"
    by (simp add: retyped_abc123 store1_def)
  have valid: "\<not> format_test (communityName ?s)" "3 \<le> length (communityName ?s)"
    "outage store1 = None"
    by (simp_all add: retyped_abc123 format_test_examples store1_def length_js)
  from create_taken_conflict [OF taken, of bob] valid taken show ?thesis
    by (simp add: retyped_abc123 receive_def)
qed

section \<open>A name that is free\<close>

lemma runTransaction_create:
  "map_of (firestore.communities fs) name = None \<Longrightarrow> outage fs = None \<Longrightarrow>
   runTransaction fs (create_transaction user name type) =
     (Inr (),
      fs\<lparr>firestore.communities :=
           AList.update name
             \<lparr>creatorId = user, createdAt = Timestamp (now fs), numberOfMembers = 1,
              privacyType = type\<rparr> (firestore.communities fs),
         communitySnippets :=
           AList.update (js ''users/'' @ template_uid user @ js ''/communitySnippets'', name)
             \<lparr>communityId = name, isAdmin = True\<rparr> (communitySnippets fs),
         requests := Suc (requests fs)\<rparr>)"
  by (simp add: runTransaction_def create_transaction_def receive_def stamp_def)

lemma handleCreateCommunity_created:
  assumes "\<not> format_test (communityName s)" "3 \<le> length (communityName s)"
    and "map_of (firestore.communities fs) (communityName s) = None" "outage fs = None"
  shows "handleCreateCommunity user fs s =
     (s\<lparr>error := [],
        effects := effects s @
          [RouterPush (js ''community/'' @ communityName s), HandleClose, ToggleMenuOpen],
        modal.loading := False\<rparr>,
      fs\<lparr>firestore.communities :=
           AList.update (communityName s)
             \<lparr>creatorId = user, createdAt = Timestamp (now fs), numberOfMembers = 1,
              privacyType = communityType s\<rparr> (firestore.communities fs),
         communitySnippets :=
           AList.update
             (js ''users/'' @ template_uid user @ js ''/communitySnippets'', communityName s)
             \<lparr>communityId = communityName s, isAdmin = True\<rparr> (communitySnippets fs),
         requests := Suc (requests fs)\<rparr>)"
  using assms by (cases "error s = []") (simp_all add: handleCreateCommunity_def runTransaction_create)

lemma handleCreateCommunity_all_or_nothing:
  "(snd (handleCreateCommunity user fs s))\<lparr>requests := requests fs\<rparr> = fs \<or>
   snd (handleCreateCommunity user fs s) =
     fs\<lparr>firestore.communities :=
          AList.update (communityName s)
            \<lparr>creatorId = user, createdAt = Timestamp (now fs), numberOfMembers = 1,
             privacyType = communityType s\<rparr> (firestore.communities fs),
        communitySnippets :=
          AList.update
            (js ''users/'' @ template_uid user @ js ''/communitySnippets'', communityName s)
            \<lparr>communityId = communityName s, isAdmin = True\<rparr> (communitySnippets fs),
        requests := Suc (requests fs)\<rparr>"
proof (cases "format_test (communityName s) \<or> length (communityName s) < 3")
  case True
  then have "snd (handleCreateCommunity user fs s) = fs"
    by (rule handleCreateCommunity_invalid)
  then show ?thesis by simp
next
  case valid: False
  show ?thesis
  proof (cases "outage fs = None \<and> map_of (firestore.communities fs) (communityName s) = None")
    case True
    with valid show ?thesis
      by (simp add: handleCreateCommunity_created)
  next
    case False
    then have "snd (runTransaction fs
        (create_transaction user (communityName s) (communityType s))) = receive fs"
      by (auto simp: runTransaction_def create_transaction_def split: option.splits)
    with valid have "snd (handleCreateCommunity user fs s) = receive fs"
      by (auto simp: handleCreateCommunity_def Let_def split: prod.splits sum.splits)
    then show ?thesis by (simp add: receive_def)
  qed
qed

text \<open>
  Claim C3. When the name passes the validation, no community document is keyed by it, the
  store is reachable and the user \<open>uid\<close> is signed in, the handler makes one call on the
  store, whose transaction writes the community record keyed by the name (creator
  \<open>uid\<close>, creation time the server's clock, one member, the chosen privacy type) and
  the snippet keyed by the name under \<open>users/uid/communitySnippets\<close> (community id the
  name, admin); nothing else in the store changes. The dialog then navigates to
  \<open>community/name\<close>, closes, toggles the menu and has its loading flag off. By
  \<open>handleCreateCommunity_all_or_nothing\<close> the two documents are written together or
  not at all, whatever the input.
\<close>

theorem create_writes_community_and_snippet:
  assumes "\<not> format_test (communityName s)" "3 \<le> length (communityName s)"
    and "map_of (firestore.communities fs) (communityName s) = None" "outage fs = None"
  shows "handleCreateCommunity (Some uid) fs s =
     (s\<lparr>error := [],
        effects := effects s @
          [RouterPush (js ''community/'' @ communityName s), HandleClose, ToggleMenuOpen],
        modal.loading := False\<rparr>,
      fs\<lparr>firestore.communities :=
           AList.update (communityName s)
             \<lparr>creatorId = Some uid, createdAt = Timestamp (now fs), numberOfMembers = 1,
              privacyType = communityType s\<rparr> (firestore.communities fs),
         communitySnippets :=
           AList.update (js ''users/'' @ uid @ js ''/communitySnippets'', communityName s)
             \<lparr>communityId = communityName s, isAdmin = True\<rparr> (communitySnippets fs),
         requests := Suc (requests fs)\<rparr>) \<and>
    map_of (firestore.communities (snd (handleCreateCommunity (Some uid) fs s))) =
      (map_of (firestore.communities fs))
        (communityName s \<mapsto>
           \<lparr>creatorId = Some uid, createdAt = Timestamp (now fs), numberOfMembers = 1,
            privacyType = communityType s\<rparr>) \<and>
    map_of (communitySnippets (snd (handleCreateCommunity (Some uid) fs s))) =
      (map_of (communitySnippets fs))
        ((js ''users/'' @ uid @ js ''/communitySnippets'', communityName s) \<mapsto>
           \<lparr>communityId = communityName s, isAdmin = True\<rparr>)"
  using handleCreateCommunity_created [OF assms, of "Some uid"]
  by (simp add: template_uid_def update_conv')

theorem create_writes_community_and_snippet_witness:
  "\<not> format_test (js ''abc123'') \<and> 3 \<le> length (js ''abc123'') \<and>
   map_of (firestore.communities store0) (js ''abc123'') = None \<and> outage store0 = None \<and>
   snd (handleCreateCommunity alice store0 (handleChange (js ''abc123'') initial_modal)) = store1"
proof -
  let ?s = "handleChange (js ''abc123'') initial_modal"
  have h1: "\<not> format_test (communityName ?s)"
    by (simp add: typed_abc123 format_test_examples)
  have h2: "3 \<le> length (communityName ?s)"
    by (simp add: typed_abc123 length_js)
  have h3: "map_of (firestore.communities store0) (communityName ?s) = None"
    by (simp add: store0_def)
  have h4: "outage store0 = None"
    by (simp add: store0_def)
  note written = create_writes_community_and_snippet [OF h1 h2 h3 h4, of "js ''u1''"]
  have "snd (handleCreateCommunity (Some (js ''u1'')) store0 ?s) =
      store0\<lparr>firestore.communities :=
           AList.update (communityName ?s)
             \<lparr>creatorId = Some (js ''u1''), createdAt = Timestamp (now store0),
              numberOfMembers = 1, privacyType = communityType ?s\<rparr>
             (firestore.communities store0),
         communitySnippets :=
           AList.update (js ''users/'' @ js ''u1'' @ js ''/communitySnippets'', communityName ?s)
             \<lparr>communityId = communityName ?s, isAdmin = True\<rparr> (communitySnippets store0),
         requests := Suc (requests store0)\<rparr>"
    by (simp only: conjunct1 [OF written] snd_conv)
  also have "\<dots> = store1"
    by (simp add: typed_abc123 store0_def store1_def js_append)
  finally have "snd (handleCreateCommunity (Some (js ''u1'')) store0 ?s) = store1" .
  with h1 h2 h3 h4 show ?thesis
    by (simp add: typed_abc123 alice_def)
qed

section \<open>Characters that the validation lets through\<close>

text \<open>
  Claim C5. The class \<open>format\<close> lists the space and the punctuation of ASCII, so a
  name with a tab (0x09) or a no-break space (0xA0), neither a letter nor a digit, passes
  \<open>format.test\<close>; with the name "ab<TAB>c" the handler creates the community and the
  snippet and navigates, and \<open>error\<close> stays empty.
\<close>

theorem create_accepts_other_characters:
  "\<not> letter_or_digit 0x09 \<and> \<not> letter_or_digit 0xA0 \<and>
   \<not> format_test [0x61, 0x62, 0x09, 0x63] \<and> \<not> format_test [0x61, 0x62, 0xA0, 0x63] \<and>
   handleCreateCommunity alice store0 (handleChange [0x61, 0x62, 0x09, 0x63] initial_modal) =
     ((handleChange [0x61, 0x62, 0x09, 0x63] initial_modal)
        \<lparr>effects := [RouterPush (js ''community/'' @ [0x61, 0x62, 0x09, 0x63]), HandleClose, ToggleMenuOpen]\<rparr>,
      store0\<lparr>firestore.communities :=
          [([0x61, 0x62, 0x09, 0x63],
            \<lparr>creatorId = alice, createdAt = Timestamp 1000, numberOfMembers = 1,
             privacyType = js ''public''\<rparr>)],
        communitySnippets :=
          [((js ''users/u1/communitySnippets'', [0x61, 0x62, 0x09, 0x63]),
            \<lparr>communityId = [0x61, 0x62, 0x09, 0x63], isAdmin = True\<rparr>)],
        requests := 1\<rparr>)"
proof -
  let ?n = "[0x61, 0x62, 0x09, 0x63] :: jsstring"
  let ?s = "handleChange ?n initial_modal"
  have n: "communityName ?s = ?n" "communityType ?s = js ''public''" "error ?s = []" "effects ?s = []"
     "modal.loading ?s = False"
    by (simp_all add: handleChange_def initial_modal_def communityNameLengthLimit_def)
  have f: "\<not> format_test ?n" "\<not> format_test [0x61, 0x62, 0xA0, 0x63]"
    by (simp_all add: format_test_def format_chars_eval)
  have l: "\<not> letter_or_digit 0x09" "\<not> letter_or_digit 0xA0"
    by (simp_all add: letter_or_digit_def)
  have "handleCreateCommunity alice store0 ?s = 
     (?s\<lparr>error := [],
        effects := effects ?s @
          [RouterPush (js ''community/'' @ communityName ?s), HandleClose, ToggleMenuOpen],
        modal.loading := False\<rparr>,
      store0\<lparr>firestore.communities :=
           AList.update (communityName ?s)
             \<lparr>creatorId = alice, createdAt = Timestamp (now store0), numberOfMembers = 1,
              privacyType = communityType ?s\<rparr> (firestore.communities store0),
         communitySnippets :=
           AList.update
             (js ''users/'' @ template_uid alice @ js ''/communitySnippets'', communityName ?s)
             \<lparr>communityId = communityName ?s, isAdmin = True\<rparr> (communitySnippets store0),
         requests := Suc (requests store0)\<rparr>)"
    by (rule handleCreateCommunity_created) (simp_all add: n f store0_def)
  also have "\<dots> = ((handleChange [0x61, 0x62, 0x09, 0x63] initial_modal)
        \<lparr>effects := [RouterPush (js ''community/'' @ [0x61, 0x62, 0x09, 0x63]), HandleClose, ToggleMenuOpen]\<rparr>,
      store0\<lparr>firestore.communities :=
          [([0x61, 0x62, 0x09, 0x63],
            \<lparr>creatorId = alice, createdAt = Timestamp 1000, numberOfMembers = 1,
             privacyType = js ''public''\<rparr>)],
        communitySnippets :=
          [((js ''users/u1/communitySnippets'', [0x61, 0x62, 0x09, 0x63]),
            \<lparr>communityId = [0x61, 0x62, 0x09, 0x63], isAdmin = True\<rparr>)],
        requests := 1\<rparr>)"
    by (simp add: n store0_def alice_def template_uid_def js_append handleChange_def initial_modal_def communityNameLengthLimit_def)
  finally show ?thesis using f l by simp
qed

section \<open>The loaders\<close>

lemma map_pair_collapse: "map (\<lambda>doc. (fst doc, snd doc)) xs = xs"
  by (induction xs) auto

lemma mset_take_drop: "mset xs = mset (take n xs) + mset (drop n xs)"
proof -
  have "mset (take n xs @ drop n xs) = mset (take n xs) + mset (drop n xs)"
    by (rule mset_append)
  then show ?thesis by simp
qed

lemma ranked_desc:
  "sorted_wrt (\<lambda>a b. field (snd b) \<le> field (snd a))
     (sort_key (\<lambda>doc. - field (snd doc) :: int) docs)"
proof -
  have "sorted (map (\<lambda>doc. - field (snd doc)) (sort_key (\<lambda>doc. - field (snd doc)) docs))"
    by (rule sorted_sort_key)
  then show ?thesis
    by (simp add: sorted_map)
qed

lemma run_query_sorted:
  "sorted_wrt (\<lambda>a b. field (snd b) \<le> field (snd a)) (run_query wh field lim docs)"
proof (cases lim)
  case None
  then show ?thesis by (simp add: run_query_def ranked_desc)
next
  case (Some n)
  then show ?thesis by (simp add: run_query_def ranked_desc)
qed

lemma run_query_unlimited:
  "mset (run_query wh field None docs) = mset (filter (\<lambda>doc. wh (snd doc)) docs)"
  by (simp add: run_query_def)

lemma run_query_length:
  "length (run_query (\<lambda>d. True) field (Some n) docs) = min n (length docs)"
  by (simp add: run_query_def min.commute)

lemma run_query_top:
  assumes "x \<in># mset docs - mset (run_query (\<lambda>d. True) field (Some n) docs)"
    and "y \<in> set (run_query (\<lambda>d. True) field (Some n) docs)"
  shows "field (snd x) \<le> field (snd y)"
proof -
  let ?hits = "sort_key (\<lambda>doc. - field (snd doc)) docs"
  have "sorted_wrt (\<lambda>a b. field (snd b) \<le> field (snd a)) (take n ?hits @ drop n ?hits)"
    by (simp add: ranked_desc)
  then have order: "\<forall>a\<in>set (take n ?hits). \<forall>b\<in>set (drop n ?hits). field (snd b) \<le> field (snd a)"
    unfolding sorted_wrt_append by blast
  have "mset docs = mset ?hits"
    by simp
  also have "\<dots> = mset (take n ?hits) + mset (drop n ?hits)"
    by (rule mset_take_drop)
  finally have "mset docs - mset (take n ?hits) = mset (drop n ?hits)"
    by simp
  with assms(1) have "x \<in> set (drop n ?hits)"
    by (simp add: run_query_def)
  moreover from assms(2) have "y \<in> set (take n ?hits)"
    by (simp add: run_query_def)
  ultimately show ?thesis using order by blast
qed

lemma run_query_subset: "mset (run_query wh field lim docs) \<subseteq># mset docs"
proof -
  let ?hits = "sort_key (\<lambda>doc. - field (snd doc)) (filter (\<lambda>doc. wh (snd doc)) docs)"
  have hits: "mset ?hits \<subseteq># mset docs"
    by simp
  show ?thesis
  proof (cases lim)
    case None
    with hits show ?thesis by (simp add: run_query_def)
  next
    case (Some n)
    have "mset (take n ?hits) \<subseteq># mset (take n ?hits) + mset (drop n ?hits)"
      by (rule mset_subset_eq_add_left)
    then have "mset (take n ?hits) \<subseteq># mset ?hits"
      by (simp only: mset_take_drop [symmetric])
    then have "mset (take n ?hits) \<subseteq># mset docs"
      using hits by (rule subset_mset.order_trans)
    with Some show ?thesis by (simp add: run_query_def)
  qed
qed

lemma getCommunities_loaded:
  "outage fs = None \<Longrightarrow>
   getCommunities n fs s =
     (s\<lparr>Communities.communities :=
          run_query (\<lambda>d. True) numberOfMembers (Some (5 + n)) (firestore.communities fs),
        Communities.loading := False\<rparr>, receive fs)"
  by (simp add: getCommunities_def getDocs_def map_pair_collapse)

lemma getCommunities_failed:
  "outage fs = Some msg \<Longrightarrow>
   getCommunities n fs s = (s\<lparr>Communities.loading := False\<rparr>, receive fs)"
  by (simp add: getCommunities_def getDocs_def)

lemma getPosts_loaded:
  "outage fs = None \<Longrightarrow>
   getPosts communityData fs s =
     (s\<lparr>postStateValue :=
          (postStateValue s)
            \<lparr>postState.posts :=
               run_query (\<lambda>d. post_doc.communityId d = fst communityData) createTime None
                 (firestore.posts fs)\<rparr>,
        Posts.loading := False\<rparr>, receive fs)"
  by (simp add: getPosts_def getDocs_def map_pair_collapse)

lemma getPosts_failed:
  "outage fs = Some msg \<Longrightarrow>
   getPosts communityData fs s = (s\<lparr>Posts.loading := False\<rparr>, receive fs)"
  by (simp add: getPosts_def getDocs_def)

lemma ranked_store_up: "outage ranked_store = None"
  by (simp add: ranked_store_def store0_def)

text \<open>
  Claim C7. When the store answers, \<open>getCommunities n\<close> makes one call on the store and
  leaves its documents alone, and the list it stores does not depend on the list held
  before: it has \<open>min (5 + n)\<close> (number of communities) elements, all of them documents
  of the collection, in descending order of member count, and no community left out has
  more members than one that is listed. \<open>getCommunities 0\<close> followed by
  \<open>getCommunities 5\<close> holds what \<open>getCommunities 5\<close> alone yields, at most 10
  elements.
\<close>

theorem getCommunities_replaces_with_top:
  assumes up: "outage fs = None"
  shows "snd (getCommunities n fs s) = receive fs \<and>
    Communities.communities (fst (getCommunities n fs s)) =
      Communities.communities (fst (getCommunities n fs t)) \<and>
    length (Communities.communities (fst (getCommunities n fs s)))
      = min (5 + n) (length (firestore.communities fs)) \<and>
    sorted_wrt (\<lambda>a b. numberOfMembers (snd b) \<le> numberOfMembers (snd a))
      (Communities.communities (fst (getCommunities n fs s))) \<and>
    mset (Communities.communities (fst (getCommunities n fs s)))
      \<subseteq># mset (firestore.communities fs) \<and>
    (\<forall>x \<in># mset (firestore.communities fs)
            - mset (Communities.communities (fst (getCommunities n fs s))).
       \<forall>y \<in> set (Communities.communities (fst (getCommunities n fs s))).
         numberOfMembers (snd x) \<le> numberOfMembers (snd y)) \<and>
    Communities.communities
      (fst (getCommunities 5 (snd (getCommunities 0 fs s)) (fst (getCommunities 0 fs s))))
      = Communities.communities (fst (getCommunities 5 fs t)) \<and>
    length (Communities.communities
      (fst (getCommunities 5 (snd (getCommunities 0 fs s)) (fst (getCommunities 0 fs s)))))
      \<le> 10"
proof -
  let ?top = "\<lambda>k. run_query (\<lambda>d. True) numberOfMembers (Some (5 + k)) (firestore.communities fs)"
  have loaded: "\<And>k u. getCommunities k fs u =
      (u\<lparr>Communities.communities := ?top k, Communities.loading := False\<rparr>, receive fs)"
    using up by (rule getCommunities_loaded)
  have again: "\<And>k u. getCommunities k (receive fs) u =
      (u\<lparr>Communities.communities := ?top k, Communities.loading := False\<rparr>, receive (receive fs))"
    using up by (simp add: getCommunities_loaded receive_def)
  have len: "\<And>k. length (?top k) = min (5 + k) (length (firestore.communities fs))"
    by (rule run_query_length)
  have top: "\<forall>x \<in># mset (firestore.communities fs) - mset (?top n).
       \<forall>y \<in> set (?top n). numberOfMembers (snd x) \<le> numberOfMembers (snd y)"
    using run_query_top [of _ "firestore.communities fs" numberOfMembers "5 + n"] by blast
  have ten: "length (run_query (\<lambda>d. True) numberOfMembers (Some 10) (firestore.communities fs)) \<le> 10"
    by (simp add: run_query_length)
  show ?thesis
    using top ten by (simp add: loaded again len run_query_sorted run_query_subset)
qed

theorem getCommunities_replaces_with_top_witness:
  "outage ranked_store = None \<and>
   map fst (Communities.communities (fst (getCommunities 0 ranked_store page0)))
     = map js [''c2'', ''c6'', ''c4'', ''c5'', ''c1''] \<and>
   length (Communities.communities (fst (getCommunities 0 ranked_store page0))) = min (5 + 0) 7 \<and>
   map fst (Communities.communities
     (fst (getCommunities 5 (snd (getCommunities 0 ranked_store page0))
            (fst (getCommunities 0 ranked_store page0)))))
     = map js [''c2'', ''c6'', ''c4'', ''c5'', ''c1'', ''c7'', ''c3'']"
proof -
  note top = getCommunities_replaces_with_top [OF ranked_store_up, of _ page0 page0]
  have five: "map fst (Communities.communities (fst (getCommunities 0 ranked_store page0)))
     = map js [''c2'', ''c6'', ''c4'', ''c5'', ''c1'']"
    by (simp add: getCommunities_loaded [OF ranked_store_up] run_query_def)
      (simp add: ranked_store_def)
  have all: "map fst (Communities.communities (fst (getCommunities 5 ranked_store page0)))
     = map js [''c2'', ''c6'', ''c4'', ''c5'', ''c1'', ''c7'', ''c3'']"
    by (simp add: getCommunities_loaded [OF ranked_store_up] run_query_def)
      (simp add: ranked_store_def)
  have size: "length (firestore.communities ranked_store) = 7"
    by (simp add: ranked_store_def)
  from top [of 0]
  have again: "Communities.communities
      (fst (getCommunities 5 (snd (getCommunities 0 ranked_store page0))
             (fst (getCommunities 0 ranked_store page0))))
      = Communities.communities (fst (getCommunities 5 ranked_store page0))"
    and len: "length (Communities.communities (fst (getCommunities 0 ranked_store page0)))
      = min (5 + 0) (length (firestore.communities ranked_store))"
    by blast+
  from len size
  have "length (Communities.communities (fst (getCommunities 0 ranked_store page0))) = min (5 + 0) 7"
    by (simp only:)
  moreover from again all
  have "map fst (Communities.communities
     (fst (getCommunities 5 (snd (getCommunities 0 ranked_store page0))
            (fst (getCommunities 0 ranked_store page0)))))
     = map js [''c2'', ''c6'', ''c4'', ''c5'', ''c1'', ''c7'', ''c3'']"
    by (simp only:)
  ultimately show ?thesis
    using five ranked_store_up by blast
qed

text \<open>
  Claim C8. When the store answers, \<open>getPosts\<close> stores exactly the posts of the
  collection whose \<open>communityId\<close> is the id of the community shown, each as often as
  the collection holds it and with no limit on their number, in descending order of
  \<open>createTime\<close>; a post of another community is never among them.
\<close>

theorem getPosts_of_community:
  assumes up: "outage fs = None"
  shows "snd (getPosts communityData fs s) = receive fs \<and>
    mset (postState.posts (postStateValue (fst (getPosts communityData fs s))))
      = mset (filter (\<lambda>doc. post_doc.communityId (snd doc) = fst communityData)
               (firestore.posts fs)) \<and>
    sorted_wrt (\<lambda>a b. createTime (snd b) \<le> createTime (snd a))
      (postState.posts (postStateValue (fst (getPosts communityData fs s)))) \<and>
    (\<forall>p \<in> set (postState.posts (postStateValue (fst (getPosts communityData fs s)))).
       post_doc.communityId (snd p) = fst communityData \<and> p \<in> set (firestore.posts fs))"
proof -
  let ?hits = "run_query (\<lambda>d. post_doc.communityId d = fst communityData) createTime None
                 (firestore.posts fs)"
  have exact: "mset ?hits
      = mset (filter (\<lambda>doc. post_doc.communityId (snd doc) = fst communityData) (firestore.posts fs))"
    by (rule run_query_unlimited)
  then have "set_mset (mset ?hits)
      = set_mset (mset (filter (\<lambda>doc. post_doc.communityId (snd doc) = fst communityData)
          (firestore.posts fs)))"
    by (rule arg_cong)
  then have members: "\<forall>p \<in> set ?hits.
      post_doc.communityId (snd p) = fst communityData \<and> p \<in> set (firestore.posts fs)"
    by simp
  show ?thesis
    using exact members by (simp add: getPosts_loaded [OF up] run_query_sorted)
qed

theorem getPosts_of_community_witness:
  "outage ranked_store = None \<and>
   map fst (postState.posts (postStateValue (fst (getPosts (js ''abc123'', doc_abc123) ranked_store posts0))))
     = [js ''p3'', js ''p1''] \<and>
   list_all (\<lambda>p. post_doc.communityId (snd p) = js ''abc123'')
     (postState.posts (postStateValue
        (fst (getPosts (js ''abc123'', doc_abc123) ranked_store posts0))))"
proof -
  have "map fst (postState.posts (postStateValue (fst (getPosts (js ''abc123'', doc_abc123) ranked_store posts0))))
     = [js ''p3'', js ''p1'']"
    by (simp add: getPosts_loaded [OF ranked_store_up] run_query_def)
      (simp add: ranked_store_def js_def)
  with getPosts_of_community [OF ranked_store_up, of "(js ''abc123'', doc_abc123)" posts0]
    ranked_store_up
  show ?thesis by (simp add: list_all_iff)
qed

text \<open>
  Claim C10. \<open>getPosts\<close> changes no field of the state container of the posts but
  \<open>posts\<close>: the user's votes and every further field are as before, whether the fetch
  succeeds or fails.
\<close>

theorem getPosts_frame:
  "postVotes (postStateValue (fst (getPosts communityData fs s))) = postVotes (postStateValue s) \<and>
   postState.more (postStateValue (fst (getPosts communityData fs s)))
     = postState.more (postStateValue s) \<and>
   postStateValue (fst (getPosts communityData fs s)) =
     (postStateValue s)
       \<lparr>postState.posts := postState.posts (postStateValue (fst (getPosts communityData fs s)))\<rparr> \<and>
   Posts.more (fst (getPosts communityData fs s)) = Posts.more s"
proof (cases "outage fs")
  case None
  then show ?thesis by (simp add: getPosts_loaded)
next
  case (Some msg)
  then show ?thesis by (simp add: getPosts_failed)
qed

section \<open>The loading flags\<close>

lemma getCommunities_loading: "\<not> Communities.loading (fst (getCommunities n fs s))"
  by (simp add: getCommunities_def Let_def getDocs_def split: option.splits)

lemma getPosts_loading: "\<not> Posts.loading (fst (getPosts cd fs s))"
  by (simp add: getPosts_def Let_def getDocs_def split: option.splits)

lemma typed_abc123_idle: "\<not> modal.loading (handleChange (js ''abc123'') initial_modal)"
  by (simp add: handleChange_def initial_modal_def)

text \<open>
  Claim C9. When \<open>getCommunities\<close> or \<open>getPosts\<close> completes, with a result or with a
  failure of the store, its loading flag is off. When \<open>handleCreateCommunity\<close> has
  passed the validation, its flag is off on completion, whatever the transaction did; when
  the validation fails the flag is not touched, so a flag that is off on entry (the button
  is disabled while it is on) is off on completion. Hence after every sequence of events on
  the dialog the flag is off.
\<close>

theorem loading_cleared:
  "\<not> Communities.loading (fst (getCommunities n fs c)) \<and>
   \<not> Posts.loading (fst (getPosts communityData fs p)) \<and>
   (\<not> format_test (communityName s) \<and> 3 \<le> length (communityName s) \<longrightarrow>
      \<not> modal.loading (fst (handleCreateCommunity user fs s))) \<and>
   (\<not> modal.loading s \<longrightarrow> \<not> modal.loading (fst (handleCreateCommunity user fs s))) \<and>
   \<not> modal.loading (fst (run_modal user fs evs))"
proof -
  have "\<not> modal.loading (fst (initial_modal, fs))"
    by (simp add: initial_modal_def)
  then have "\<not> modal.loading (fst (run_modal user fs evs))"
    unfolding run_modal_def by (rule foldl_modal_step_loading)
  then show ?thesis
    by (simp add: getCommunities_loading getPosts_loading handleCreateCommunity_loading)
qed

theorem loading_cleared_witness:
  "\<not> format_test (communityName (handleChange (js ''abc123'') initial_modal)) \<and>
   3 \<le> length (communityName (handleChange (js ''abc123'') initial_modal)) \<and>
   \<not> modal.loading (handleChange (js ''abc123'') initial_modal) \<and>
   \<not> modal.loading
       (fst (handleCreateCommunity alice store_down (handleChange (js ''abc123'') initial_modal))) \<and>
   \<not> modal.loading (fst (run_modal alice store0
        [InputChange (js ''abc123''), CreateClick, Remote (\<lambda>fs. store_down), CreateClick])) \<and>
   \<not> Communities.loading
       (fst (getCommunities 0 store_down \<lparr>Communities.loading = True, communities = []\<rparr>)) \<and>
   \<not> Posts.loading (fst (getPosts (js ''abc123'', doc_abc123) store_down
        \<lparr>Posts.loading = True, postStateValue = \<lparr>postState.posts = [], postVotes = []\<rparr>\<rparr>))"
proof -
  let ?s = "handleChange (js ''abc123'') initial_modal"
  have valid: "\<not> format_test (communityName ?s)" "3 \<le> length (communityName ?s)"
    by (simp_all add: typed_abc123 format_test_examples length_js)
  note cleared = loading_cleared
    [of 0 store_down "\<lparr>Communities.loading = True, communities = []\<rparr>" "(js ''abc123'', doc_abc123)"
      "\<lparr>Posts.loading = True, postStateValue = \<lparr>postState.posts = [], postVotes = []\<rparr>\<rparr>"
      ?s alice
      "[InputChange (js ''abc123''), CreateClick, Remote (\<lambda>fs. store_down), CreateClick]"]
  from cleared valid typed_abc123_idle
  have "\<not> modal.loading (fst (handleCreateCommunity alice store_down ?s))"
    by blast
  moreover have "\<not> modal.loading (fst (run_modal alice store0
        [InputChange (js ''abc123''), CreateClick, Remote (\<lambda>fs. store_down), CreateClick]))"
    using loading_cleared [of 0 store0 "\<lparr>Communities.loading = True, communities = []\<rparr>"
      "(js ''abc123'', doc_abc123)"
      "\<lparr>Posts.loading = True, postStateValue = \<lparr>postState.posts = [], postVotes = []\<rparr>\<rparr>"
      ?s alice
      "[InputChange (js ''abc123''), CreateClick, Remote (\<lambda>fs. store_down), CreateClick]"]
    by blast
  ultimately show ?thesis
    using cleared valid typed_abc123_idle by blast
qed

end
